theory Spec2Isabelle
  imports Complex_Main "HOL-Library.Multiset"
begin

section \<open>cobalt/dom/intersection_observer.cc\<close>

text \<open>
  A shallow embedding of \<^verbatim>\<open>cobalt::dom::IntersectionObserver\<close>. The observer is a
  record of its member variables; every member function takes the observer and returns
  the updated observer together with the calls it made on its collaborators (the target
  elements, the task manager and the exception state), in the order
  they were made.

  Elements are compared by identity only, so their type \<open>'e\<close> is left open, as are the
  types of queue entries (\<open>'r\<close>), of parsed property values (\<open>'v\<close>) and of the script
  callback (\<open>'c\<close>). A \<^verbatim>\<open>scoped_refptr<Element>\<close> that may be NULL is an
  \<open>'e option\<close>.

  Threshold values are C++ doubles. The code only compares them with 0 and 1 and with each
  other, so they are modelled as \<open>real\<close>: the model covers the finite doubles, on which
  the comparisons agree, and identifies -0.0 with 0.0; NaN has no counterpart.
\<close>

subsection \<open>Data\<close>

text \<open>The two \<^verbatim>\<open>script::SimpleExceptionType\<close> values the file raises.\<close>

datatype SimpleExceptionType = kSyntaxError | kRangeError

text \<open>
  \<^verbatim>\<open>ThresholdType\<close>, the union of \<^verbatim>\<open>double\<close> and
  \<^verbatim>\<open>script::Sequence<double>\<close>; \<open>ThresholdUnspecified\<close> is the value for which both
  \<^verbatim>\<open>IsType\<close> tests of the initializer are false.
\<close>

datatype ThresholdType =
    ThresholdDouble real
  | ThresholdSequence "real list"
  | ThresholdUnspecified

text \<open>\<^verbatim>\<open>IntersectionObserverInit\<close>: the options dictionary.\<close>

record 'e IntersectionObserverInit =
  options_root :: "'e option"
  options_root_margin :: string
  options_threshold :: ThresholdType

text \<open>
  What the initializer reads through \<^verbatim>\<open>script::EnvironmentSettings\<close>: the document
  element of the window's document, and the CSS parser's \<^verbatim>\<open>ParsePropertyValue\<close>
  (property name, property value), whose result downcast to a
  \<^verbatim>\<open>PropertyListValue\<close> is \<open>None\<close> when it is NULL.
\<close>

record ('e, 'v) DOMSettings =
  document_element :: 'e
  ParsePropertyValue :: "string \<Rightarrow> string \<Rightarrow> 'v option"

text \<open>
  The member variables of the observer. A name cannot end in an underscore, so
  \<^verbatim>\<open>thresholds_\<close> is written \<open>thresholds_'\<close>, and so on.
\<close>

record ('e, 'r, 'v, 'c) IntersectionObserver =
  callback_' :: 'c
  root_' :: 'e
  root_margin_' :: string
  root_margin_property_value_' :: "'v option"
  thresholds_' :: "real list"
  observation_targets_' :: "'e option list"
  queued_entries_' :: "'r list"

text \<open>
  The calls on collaborators. The task manager is reached through
  \<^verbatim>\<open>root_->owner_document()\<close>, so its calls carry the root.
\<close>

datatype ('e, 'r) call =
    RegisterIntersectionObserverTarget 'e
  | UnregisterIntersectionObserverTarget 'e
  | OnIntersectionObserverCreated 'e
  | OnIntersectionObserverDestroyed 'e
  | QueueIntersectionObserverTask 'e
  | SetSimpleException SimpleExceptionType
  | NOTREACHED

text \<open>\<^verbatim>\<open>script::CallbackResult<void>\<close>.\<close>

record CallbackResult =
  exception :: bool

subsection \<open>The callback\<close>

text \<open>
  \<^verbatim>\<open>ScriptCallback::RunCallback\<close>. The script engine's \<^verbatim>\<open>Run\<close> is the
  parameter \<open>run\<close>. The callback is handed the entries and a reference to the live
  observer, on which it may call any member function; so \<open>run\<close>, applied to the stored
  callback, the entries and the observer, yields the callback's result together with the
  observer as the callback left it and the calls on collaborators made meanwhile.
\<close>

type_synonym ('e, 'r, 'v, 'c) script_run =
  "'c \<Rightarrow> 'r list \<Rightarrow> ('e, 'r, 'v, 'c) IntersectionObserver \<Rightarrow>
   CallbackResult \<times> ('e, 'r, 'v, 'c) IntersectionObserver \<times> ('e, 'r) call list"

definition RunCallback ::
  "('e, 'r, 'v, 'c) script_run \<Rightarrow> 'c \<Rightarrow> 'r list \<Rightarrow> ('e, 'r, 'v, 'c) IntersectionObserver \<Rightarrow>
   bool \<times> ('e, 'r, 'v, 'c) IntersectionObserver \<times> ('e, 'r) call list" where
  "RunCallback run callback intersections observer =
     (let (result, observer', calls) = run callback intersections observer
      in (\<not> exception result, observer', calls))"

subsection \<open>Construction\<close>

text \<open>
  The loop of the initializer over a threshold sequence, on the list \<open>ths\<close> that
  \<^verbatim>\<open>thresholds_\<close> holds so far. \<open>Inl\<close> is the early return after the RangeError was
  set, \<open>Inr\<close> the end of the loop; both carry \<^verbatim>\<open>thresholds_\<close> as it is then.
\<close>

fun push_thresholds :: "real list \<Rightarrow> real list \<Rightarrow> real list + real list" where
  "push_thresholds [] ths = Inr ths"
| "push_thresholds (x # xs) ths =
     (if x < 0 \<or> x > 1 then Inl ths else push_thresholds xs (ths @ [x]))"

text \<open>
  The end of the initializer, after the threshold branches: the default threshold and the
  registration with the task manager.
\<close>

definition finish_init ::
  "('e, 'r, 'v, 'c) IntersectionObserver \<Rightarrow> ('e, 'r) call list \<Rightarrow>
   ('e, 'r, 'v, 'c) IntersectionObserver \<times> ('e, 'r) call list" where
  "finish_init this calls =
     (let this' = (if thresholds_' this = [] then this\<lparr>thresholds_' := thresholds_' this @ [0]\<rparr>
                   else this)
      in (this', calls @ [OnIntersectionObserverCreated (root_' this')]))"

text \<open>
  \<^verbatim>\<open>InitIntersectionObserverInternal\<close>, which both constructors call on the new
  object, whose containers are empty. The result is the observer and the calls made;
  a \<open>SetSimpleException\<close> among them is what makes the construction fail for the caller.
  std::sort on doubles is \<open>sort\<close>: the sorted arrangement of a list of values is unique.
\<close>

definition InitIntersectionObserverInternal ::
  "('e, 'v) DOMSettings \<Rightarrow> 'c \<Rightarrow> 'e IntersectionObserverInit \<Rightarrow>
   ('e, 'r, 'v, 'c) IntersectionObserver \<times> ('e, 'r) call list" where
  "InitIntersectionObserverInternal settings callback options =
     (let this1 = \<lparr>callback_' = callback,
                   root_' = (case options_root options of
                              Some r \<Rightarrow> r
                            | None \<Rightarrow> document_element settings),
                   root_margin_' = options_root_margin options,
                   root_margin_property_value_' = None,
                   thresholds_' = [],
                   observation_targets_' = [],
                   queued_entries_' = []\<rparr>;
          property_list_value =
            ParsePropertyValue settings ''intersection-observer-root-margin''
              (root_margin_' this1);
          (this2, calls) =
            (case property_list_value of
               Some v \<Rightarrow> (this1\<lparr>root_margin_property_value_' := Some v\<rparr>, [])
             | None \<Rightarrow> (this1, [SetSimpleException kSyntaxError]))
      in case options_threshold options of
           ThresholdDouble d \<Rightarrow>
             if d < 0 \<or> d > 1 then (this2, calls @ [SetSimpleException kRangeError])
             else finish_init (this2\<lparr>thresholds_' := thresholds_' this2 @ [d]\<rparr>) calls
         | ThresholdSequence thresholds \<Rightarrow>
             (case push_thresholds thresholds (thresholds_' this2) of
                Inl ths \<Rightarrow>
                  (this2\<lparr>thresholds_' := ths\<rparr>, calls @ [SetSimpleException kRangeError])
              | Inr ths \<Rightarrow> finish_init (this2\<lparr>thresholds_' := sort ths\<rparr>) calls)
         | ThresholdUnspecified \<Rightarrow> finish_init this2 calls)"

text \<open>
  The destructor \<^verbatim>\<open>~IntersectionObserver\<close>: its body is one call on the task manager.
\<close>

definition IntersectionObserver_destructor ::
  "('e, 'r, 'v, 'c) IntersectionObserver \<Rightarrow> ('e, 'r) call list" where
  "IntersectionObserver_destructor this = [OnIntersectionObserverDestroyed (root_' this)]"

subsection \<open>Observation targets\<close>

text \<open>
  \<^verbatim>\<open>TrackObservationTarget\<close> on the vector: a NULL slot met by the scan is erased, the
  scan stops at the target when it is there, and the target is pushed at the back when
  the scan reaches the end.
\<close>

fun track :: "'e option list \<Rightarrow> 'e \<Rightarrow> 'e option list" where
  "track [] target = [Some target]"
| "track (None # rest) target = track rest target"
| "track (Some x # rest) target =
     (if x = target then Some x # rest else Some x # track rest target)"

definition TrackObservationTarget ::
  "('e, 'r, 'v, 'c) IntersectionObserver \<Rightarrow> 'e \<Rightarrow> ('e, 'r, 'v, 'c) IntersectionObserver" where
  "TrackObservationTarget this target =
     this\<lparr>observation_targets_' := track (observation_targets_' this) target\<rparr>"

definition Observe ::
  "('e, 'r, 'v, 'c) IntersectionObserver \<Rightarrow> 'e option \<Rightarrow>
   ('e, 'r, 'v, 'c) IntersectionObserver \<times> ('e, 'r) call list" where
  "Observe this target =
     (case target of
        None \<Rightarrow> (this, [NOTREACHED])
      | Some t \<Rightarrow> (TrackObservationTarget this t, [RegisterIntersectionObserverTarget t]))"

text \<open>Successive \<^verbatim>\<open>Observe\<close> calls, the calls they make appended in order.\<close>

fun Observe_each ::
  "('e, 'r, 'v, 'c) IntersectionObserver \<Rightarrow> 'e option list \<Rightarrow>
   ('e, 'r, 'v, 'c) IntersectionObserver \<times> ('e, 'r) call list" where
  "Observe_each this [] = (this, [])"
| "Observe_each this (target # targets) =
     (let (this', calls) = Observe this target;
          (this'', calls') = Observe_each this' targets
      in (this'', calls @ calls'))"

text \<open>The loop of \<^verbatim>\<open>Disconnect\<close> over the targets: NULL slots are skipped.\<close>

fun unregister_targets :: "'e option list \<Rightarrow> ('e, 'r) call list" where
  "unregister_targets [] = []"
| "unregister_targets (None # rest) = unregister_targets rest"
| "unregister_targets (Some target # rest) =
     UnregisterIntersectionObserverTarget target # unregister_targets rest"

definition Disconnect ::
  "('e, 'r, 'v, 'c) IntersectionObserver \<Rightarrow>
   ('e, 'r, 'v, 'c) IntersectionObserver \<times> ('e, 'r) call list" where
  "Disconnect this =
     (this\<lparr>observation_targets_' := [], queued_entries_' := []\<rparr>,
      unregister_targets (observation_targets_' this))"

subsection \<open>The entry queue\<close>

text \<open>\<^verbatim>\<open>TakeRecords\<close>: the queue is swapped with an empty local, which is returned.\<close>

definition TakeRecords ::
  "('e, 'r, 'v, 'c) IntersectionObserver \<Rightarrow> 'r list \<times> ('e, 'r, 'v, 'c) IntersectionObserver" where
  "TakeRecords this =
     (let queued_entries = [] in (queued_entries_' this, this\<lparr>queued_entries_' := queued_entries\<rparr>))"



text \<open>
  \<^verbatim>\<open>Notify\<close>: the returned bool, the observer afterwards and the calls made. The
  callback is run on the local copy \<open>queue\<close> and on the observer as \<^verbatim>\<open>TakeRecords\<close>
  left it; what \<^verbatim>\<open>RunCallback\<close> returns is returned, and nothing is done after it.
\<close>

definition Notify ::
  "('e, 'r, 'v, 'c) script_run \<Rightarrow> ('e, 'r, 'v, 'c) IntersectionObserver \<Rightarrow>
   bool \<times> ('e, 'r, 'v, 'c) IntersectionObserver \<times> ('e, 'r) call list" where
  "Notify run this =
     (if queued_entries_' this = [] then (True, this, [])
      else (let (queue, this') = TakeRecords this
            in RunCallback run (callback_' this') queue this'))"

subsection \<open>Concrete inputs\<close>

text \<open>
  Elements, entries, property values and callbacks are numbers here. The stand-in for the
  CSS parser accepts the margin \<open>''0px''\<close> and nothing else; the document element is
  element 0.
\<close>

definition example_settings :: "(nat, nat) DOMSettings" where
  "example_settings =
     \<lparr>document_element = 0,
      ParsePropertyValue = (\<lambda>name val. if val = ''0px'' then Some 7 else None)\<rparr>"

definition example_options :: "string \<Rightarrow> ThresholdType \<Rightarrow> nat IntersectionObserverInit" where
  "example_options margin threshold =
     \<lparr>options_root = None, options_root_margin = margin, options_threshold = threshold\<rparr>"

definition example_observer ::
  "string \<Rightarrow> ThresholdType \<Rightarrow> (nat, nat, nat, nat) IntersectionObserver \<times> (nat, nat) call list" where
  "example_observer margin threshold =
     InitIntersectionObserverInternal example_settings 0 (example_options margin threshold)"

text \<open>A valid observer: margin \<open>''0px''\<close>, thresholds 0.25 and 0.75.\<close>

definition valid_observer :: "(nat, nat, nat, nat) IntersectionObserver" where
  "valid_observer = fst (example_observer ''0px'' (ThresholdSequence [0.75, 0.25]))"

text \<open>
  Script callbacks: one that throws, one that does not, and one that observes element 5,
  has entry 41 queued on the observer it is handed, and then throws.
\<close>

definition throwing_run :: "(nat, nat, nat, nat) script_run" where
  "throwing_run callback intersections observer = (\<lparr>exception = True\<rparr>, observer, [])"



section \<open>Properties\<close>

subsection \<open>Helper lemmas\<close>

lemma push_thresholds_in_range:
  "\<forall>v\<in>set ds. 0 \<le> v \<and> v \<le> 1 \<Longrightarrow> push_thresholds ds ths = Inr (ths @ ds)"
  by (induction ds arbitrary: ths) auto

lemma push_thresholds_first_bad:
  "i < length ds \<Longrightarrow> ds ! i < 0 \<or> ds ! i > 1 \<Longrightarrow> \<forall>j<i. 0 \<le> ds ! j \<and> ds ! j \<le> 1 \<Longrightarrow>
   push_thresholds ds ths = Inl (ths @ take i ds)"
proof (induction ds arbitrary: ths i)
  case Nil
  then show ?case by simp
next
  case (Cons d ds)
  show ?case
  proof (cases i)
    case 0
    with Cons.prems show ?thesis by auto
  next
    case (Suc k)
    from Cons.prems Suc have d: "0 \<le> d \<and> d \<le> 1" by auto
    from Cons.prems Suc have k: "k < length ds" "ds ! k < 0 \<or> ds ! k > 1"
      "\<forall>j<k. 0 \<le> ds ! j \<and> ds ! j \<le> 1" by auto
    from Cons.IH [OF k] d Suc show ?thesis by auto
  qed
qed

lemma push_thresholds_some_bad:
  "v \<in> set ds \<Longrightarrow> v < 0 \<or> v > 1 \<Longrightarrow> \<exists>partial. push_thresholds ds ths = Inl partial"
  by (induction ds arbitrary: ths) auto

lemma thresholds_finish_init:
  "thresholds_' (fst (finish_init this calls)) =
     (if thresholds_' this = [] then [0] else thresholds_' this)"
  by (simp add: finish_init_def Let_def)

lemma sort_Nil_iff: "sort xs = [] \<longleftrightarrow> xs = []"
  by (metis length_sort length_0_conv)

lemma unregister_targets_eq:
  "unregister_targets targets = [UnregisterIntersectionObserverTarget t. Some t \<leftarrow> targets]"
  by (induction targets rule: unregister_targets.induct) simp_all

lemma Init_no_targets:
  "observation_targets_' (fst (InitIntersectionObserverInternal settings callback options)) = []"
  by (simp add: InitIntersectionObserverInternal_def finish_init_def Let_def
           split: option.splits ThresholdType.splits sum.splits prod.splits)

lemma track_no_null:
  "track (map Some us) t = map Some (if t \<in> set us then us else us @ [t])"
  by (induction us) auto

lemma Observe_each_append:
  "Observe_each this (xs @ ys) =
     (let (this', calls) = Observe_each this xs;
          (this'', calls') = Observe_each this' ys
      in (this'', calls @ calls'))"
  by (induction xs arbitrary: this) (auto simp: Let_def split: prod.splits)

lemma Observe_each_snoc:
  "fst (Observe_each this (xs @ [x])) = fst (Observe (fst (Observe_each this xs)) x)"
  by (simp add: Observe_each_append Let_def split: prod.splits)

text \<open>
  On an observer that tracks nothing yet, successive \<^verbatim>\<open>Observe\<close> calls leave the
  targets given, without the NULL ones, each at the place of its first occurrence.
\<close>

lemma Observe_each_targets:
  "observation_targets_' this = [] \<Longrightarrow>
   observation_targets_' (fst (Observe_each this targets)) =
     map Some (rev (remdups (rev [t. Some t \<leftarrow> targets])))"
proof (induction targets rule: rev_induct)
  case Nil
  then show ?case by simp
next
  case (snoc x xs)
  show ?case
  proof (cases x)
    case None
    with snoc show ?thesis by (simp add: Observe_each_snoc Observe_def)
  next
    case (Some t)
    with snoc show ?thesis
      by (simp add: Observe_each_snoc Observe_def TrackObservationTarget_def track_no_null)
  qed
qed


subsection \<open>Construction\<close>

text \<open>
  C1. The specification: when the root margin does not parse, construction fails with a
  SyntaxError and nothing more is initialized, so the thresholds are not validated and
  \<^verbatim>\<open>OnIntersectionObserverCreated\<close> is not called. The code sets the SyntaxError and
  goes on, the branch having no return: with the margin \<open>''bogus''\<close> and an empty threshold
  sequence the default threshold is stored and the observer is registered with the task
  manager; with the threshold 2 the thresholds are validated and a RangeError is set after
  the SyntaxError.
\<close>

theorem parse_failure_initialization_goes_on:
  "example_observer ''bogus'' (ThresholdSequence []) =
     (\<lparr>callback_' = 0, root_' = 0, root_margin_' = ''bogus'',
       root_margin_property_value_' = None, thresholds_' = [0],
       observation_targets_' = [], queued_entries_' = []\<rparr>,
      [SetSimpleException kSyntaxError, OnIntersectionObserverCreated 0]) \<and>
   snd (example_observer ''bogus'' (ThresholdDouble 2)) =
     [SetSimpleException kSyntaxError, SetSimpleException kRangeError]"
  by (simp add: example_observer_def example_options_def example_settings_def
        InitIntersectionObserverInternal_def finish_init_def)

text \<open>
  C4. When every ratio of the threshold sequence lies in [0, 1], the stored thresholds are
  the ratios sorted ascending, each as often as it was given; for the empty sequence they
  are exactly [0]. The sequence 0.5, 0.25, 0.5 is stored as 0.25, 0.5, 0.5.
\<close>

theorem thresholds_sorted_duplicates_kept:
  fixes settings :: "('e, 'v) DOMSettings" and callback :: 'c
  assumes "options_threshold options = ThresholdSequence ds"
    and "\<forall>v\<in>set ds. 0 \<le> v \<and> v \<le> 1"
  shows "(let this = fst (InitIntersectionObserverInternal settings callback options
                            :: ('e, 'r, 'v, 'c) IntersectionObserver \<times> ('e, 'r) call list)
          in thresholds_' this = (if ds = [] then [0] else sort ds) \<and>
             sorted (thresholds_' this) \<and>
             (ds \<noteq> [] \<longrightarrow> mset (thresholds_' this) = mset ds))"
proof -
  from assms(2) have "push_thresholds ds [] = Inr ds"
    using push_thresholds_in_range [of ds "[]"] by simp
  with assms(1) show ?thesis
    by (auto simp: InitIntersectionObserverInternal_def Let_def thresholds_finish_init
                   sort_Nil_iff split: option.splits)
qed

theorem thresholds_sorted_duplicates_kept_witness:
  "list_all (\<lambda>v. 0 \<le> v \<and> v \<le> 1) [0.5, 0.25, 0.5::real] \<and>
   thresholds_' (fst (example_observer ''0px'' (ThresholdSequence [0.5, 0.25, 0.5]))) =
     [0.25, 0.5, 0.5] \<and>
   thresholds_' (fst (example_observer ''0px'' (ThresholdSequence []))) = [0]"
  using thresholds_sorted_duplicates_kept
    [of "example_options ''0px'' (ThresholdSequence [0.5, 0.25, 0.5])" "[0.5, 0.25, 0.5]"
        example_settings "0::nat", where ?'r = nat]
    thresholds_sorted_duplicates_kept
    [of "example_options ''0px'' (ThresholdSequence [])" "[]"
        example_settings "0::nat", where ?'r = nat]
  by (simp add: example_observer_def example_options_def Let_def)

text \<open>
  C5. When a supplied threshold (the single value, or a member of the sequence) is below 0
  or above 1, the initializer sets a RangeError and returns at once: the RangeError is the
  last call it makes, and \<^verbatim>\<open>OnIntersectionObserverCreated\<close> is not among its calls.
\<close>

theorem out_of_range_threshold_RangeError:
  fixes settings :: "('e, 'v) DOMSettings" and callback :: 'c
  assumes "v < 0 \<or> v > 1"
    and "options_threshold options = ThresholdDouble v \<or>
         (\<exists>ds. options_threshold options = ThresholdSequence ds \<and> v \<in> set ds)"
  shows "(let calls = snd (InitIntersectionObserverInternal settings callback options
                             :: ('e, 'r, 'v, 'c) IntersectionObserver \<times> ('e, 'r) call list)
          in SetSimpleException kRangeError \<in> set calls \<and>
             last calls = SetSimpleException kRangeError \<and>
             (\<forall>r. OnIntersectionObserverCreated r \<notin> set calls))"
proof -
  from assms(2) show ?thesis
  proof
    assume "options_threshold options = ThresholdDouble v"
    with assms(1) show ?thesis
      by (auto simp: InitIntersectionObserverInternal_def Let_def split: option.splits)
  next
    assume "\<exists>ds. options_threshold options = ThresholdSequence ds \<and> v \<in> set ds"
    then obtain ds where ds: "options_threshold options = ThresholdSequence ds" "v \<in> set ds"
      by blast
    from push_thresholds_some_bad [OF ds(2) assms(1)]
    obtain partial where "push_thresholds ds [] = Inl partial" by blast
    with ds(1) show ?thesis
      by (auto simp: InitIntersectionObserverInternal_def Let_def split: option.splits)
  qed
qed

theorem out_of_range_threshold_RangeError_witness:
  "((1.5::real) < 0 \<or> (1.5::real) > 1) \<and>
   snd (example_observer ''0px'' (ThresholdSequence [0.5, 1.5, 0.25])) =
     [SetSimpleException kRangeError] \<and>
   snd (example_observer ''0px'' (ThresholdDouble 1.5)) = [SetSimpleException kRangeError]"
  using out_of_range_threshold_RangeError
    [of "1.5::real" "example_options ''0px'' (ThresholdSequence [0.5, 1.5, 0.25])"
        example_settings "0::nat", where ?'r = nat]
  by (simp add: example_observer_def example_options_def example_settings_def
        InitIntersectionObserverInternal_def)

text \<open>
  C10. When the first out-of-range value of the threshold sequence is at index \<open>i\<close>, the
  initializer returns with the RangeError set and leaves in \<^verbatim>\<open>thresholds_\<close> exactly
  the first \<open>i\<close> values, in the order given: not sorted, nothing removed, and no default 0
  added.
\<close>

theorem RangeError_leaves_partial_thresholds:
  fixes settings :: "('e, 'v) DOMSettings" and callback :: 'c
  assumes "options_threshold options = ThresholdSequence ds"
    and "i < length ds"
    and "ds ! i < 0 \<or> ds ! i > 1"
    and "\<forall>j<i. 0 \<le> ds ! j \<and> ds ! j \<le> 1"
  shows "(let (this, calls) = (InitIntersectionObserverInternal settings callback options
                             :: ('e, 'r, 'v, 'c) IntersectionObserver \<times> ('e, 'r) call list)
          in thresholds_' this = take i ds \<and>
             calls \<noteq> [] \<and>
             last calls = SetSimpleException kRangeError \<and>
             (\<forall>r. OnIntersectionObserverCreated r \<notin> set calls))"
proof -
  from push_thresholds_first_bad [OF assms(2,3,4), of "[]"]
  have "push_thresholds ds [] = Inl (take i ds)" by simp
  with assms(1) show ?thesis
    by (auto simp: InitIntersectionObserverInternal_def Let_def split: option.splits)
qed

theorem RangeError_leaves_partial_thresholds_witness:
  "(2::nat) < length [0.5, 0.25, 2, 0.125::real] \<and>
   ([0.5, 0.25, 2, 0.125::real] ! 2 < 0 \<or> [0.5, 0.25, 2, 0.125::real] ! 2 > 1) \<and>
   list_all (\<lambda>v. 0 \<le> v \<and> v \<le> 1) (take 2 [0.5, 0.25, 2, 0.125::real]) \<and>
   thresholds_' (fst (example_observer ''0px'' (ThresholdSequence [0.5, 0.25, 2, 0.125]))) =
     [0.5, 0.25]"
proof -
  have b: "\<forall>j<2. 0 \<le> [0.5, 0.25, 2, 0.125::real] ! j \<and> [0.5, 0.25, 2, 0.125::real] ! j \<le> 1"
    by (simp add: less_Suc_eq numeral_2_eq_2)
  from b RangeError_leaves_partial_thresholds
    [of "example_options ''0px'' (ThresholdSequence [0.5, 0.25, 2, 0.125])"
        "[0.5, 0.25, 2, 0.125]" 2 example_settings "0::nat", where ?'r = nat]
  show ?thesis
    by (simp add: example_observer_def example_options_def Let_def split: prod.splits)
qed

text \<open>
  C2. The specification: destroying a valid observer informs the task manager and calls the
  deregistration API of every target still tracked. The destructor makes the first call
  only: an observer constructed without error that tracks element 4 is destroyed without
  \<^verbatim>\<open>UnregisterIntersectionObserverTarget\<close> being called on element 4.
\<close>

theorem destructor_unregisters_counterexample:
  "snd (example_observer ''0px'' (ThresholdSequence [0.75, 0.25])) =
     [OnIntersectionObserverCreated 0] \<and>
   observation_targets_' (fst (Observe valid_observer (Some 4))) = [Some 4] \<and>
   UnregisterIntersectionObserverTarget 4 \<notin>
     set (IntersectionObserver_destructor (fst (Observe valid_observer (Some 4))))"
  by (simp add: valid_observer_def example_observer_def example_options_def
        example_settings_def InitIntersectionObserverInternal_def finish_init_def
        Observe_def TrackObservationTarget_def IntersectionObserver_destructor_def)

text \<open>
  C2, as the code has it. The destructor informs the task manager of the root's document that the
  observer was destroyed, and that is the only call it makes. It calls the deregistration
  API of no target; for a target that is still tracked \<^verbatim>\<open>Disconnect\<close> would have
  called it, so the destruction is not an implicit \<^verbatim>\<open>Disconnect\<close>. Nothing is said
  of the entry queue.
\<close>

theorem destructor_is_no_Disconnect:
  "IntersectionObserver_destructor this = [OnIntersectionObserverDestroyed (root_' this)] \<and>
   (\<forall>t. UnregisterIntersectionObserverTarget t \<notin> set (IntersectionObserver_destructor this)) \<and>
   (Some target \<in> set (observation_targets_' this) \<longrightarrow>
      UnregisterIntersectionObserverTarget target \<in> set (snd (Disconnect this)) \<and>
      UnregisterIntersectionObserverTarget target \<notin> set (IntersectionObserver_destructor this))"
  by (auto simp: IntersectionObserver_destructor_def Disconnect_def unregister_targets_eq
           split: option.splits)

theorem destructor_is_no_Disconnect_witness:
  "Some 4 \<in> set (observation_targets_' (fst (Observe_each valid_observer [Some 4, Some 9]))) \<and>
   snd (Disconnect (fst (Observe_each valid_observer [Some 4, Some 9]))) =
     [UnregisterIntersectionObserverTarget 4, UnregisterIntersectionObserverTarget 9] \<and>
   IntersectionObserver_destructor (fst (Observe_each valid_observer [Some 4, Some 9])) =
     [OnIntersectionObserverDestroyed 0]"
  using destructor_is_no_Disconnect
    [of "fst (Observe_each valid_observer [Some 4, Some 9])" 4]
  by (simp add: valid_observer_def example_observer_def example_options_def
        example_settings_def InitIntersectionObserverInternal_def finish_init_def
        Observe_def TrackObservationTarget_def IntersectionObserver_destructor_def
        Disconnect_def)

subsection \<open>The entry queue\<close>




text \<open>
  C7. \<^verbatim>\<open>TakeRecords\<close> returns the queue as it was and leaves the observer with an empty
  queue and nothing else changed; a second \<^verbatim>\<open>TakeRecords\<close> right after it returns the
  empty sequence.
\<close>

theorem TakeRecords_drains_once:
  "fst (TakeRecords this) = queued_entries_' this \<and>
   snd (TakeRecords this) = this\<lparr>queued_entries_' := []\<rparr> \<and>
   fst (TakeRecords (snd (TakeRecords this))) = []"
  by (simp add: TakeRecords_def)

text \<open>
  C8. \<^verbatim>\<open>Notify\<close> on an observer whose queue is empty returns true, makes no call (the
  callback is not run) and leaves the observer as it was.
\<close>

theorem Notify_empty_queue:
  "queued_entries_' this = [] \<Longrightarrow> Notify run this = (True, this, [])"
  by (simp add: Notify_def)

theorem Notify_empty_queue_witness:
  "queued_entries_' valid_observer = [] \<and>
   Notify throwing_run valid_observer = (True, valid_observer, [])"
proof -
  have q: "queued_entries_' valid_observer = []"
    by (simp add: valid_observer_def example_observer_def example_options_def
          example_settings_def InitIntersectionObserverInternal_def finish_init_def)
  from q Notify_empty_queue [OF q, of throwing_run] show ?thesis by simp
qed

subsection \<open>Observation targets\<close>

text \<open>
  C6. The specification: observing a target that is already tracked is a no-op. The
  registration call on the target is made before the tracked targets are scanned, so it is
  made again: observing element 4 a second time leaves the observer as it is and calls
  \<^verbatim>\<open>RegisterIntersectionObserverTarget\<close> on element 4 once more.
\<close>

theorem Observe_again_is_no_op_counterexample:
  "observation_targets_' (fst (Observe valid_observer (Some 4))) = [Some 4] \<and>
   Observe (fst (Observe valid_observer (Some 4))) (Some 4) =
     (fst (Observe valid_observer (Some 4)), [RegisterIntersectionObserverTarget 4]) \<and>
   snd (Observe (fst (Observe valid_observer (Some 4))) (Some 4)) \<noteq> []"
  by (simp add: valid_observer_def example_observer_def example_options_def
        example_settings_def InitIntersectionObserverInternal_def finish_init_def
        Observe_def TrackObservationTarget_def)

text \<open>
  C6, as the code has it. After any sequence of \<^verbatim>\<open>Observe\<close> calls on a new observer, the
  tracked targets are the targets observed, each once, in the order in which they were
  first observed. Observing a target of the sequence again leaves the observer as it is,
  and calls the registration API of the target once more.
\<close>

theorem Observe_tracks_each_target_once:
  fixes settings :: "('e, 'v) DOMSettings" and callback :: 'c
  shows "(let new = fst (InitIntersectionObserverInternal settings callback options
                            :: ('e, 'r, 'v, 'c) IntersectionObserver \<times> ('e, 'r) call list);
              this = fst (Observe_each new targets)
          in observation_targets_' this =
               map Some (rev (remdups (rev [t. Some t \<leftarrow> targets]))) \<and>
             distinct (observation_targets_' this) \<and>
             (Some target \<in> set targets \<longrightarrow>
                Observe this (Some target) =
                  (this, [RegisterIntersectionObserverTarget target])))"
proof -
  define new where "new = fst (InitIntersectionObserverInternal settings callback options
                            :: ('e, 'r, 'v, 'c) IntersectionObserver \<times> ('e, 'r) call list)"
  define this where "this = fst (Observe_each new targets)"
  have new: "observation_targets_' new = []"
    unfolding new_def by (rule Init_no_targets)
  have tracked: "observation_targets_' this =
      map Some (rev (remdups (rev [t. Some t \<leftarrow> targets])))"
    unfolding this_def by (rule Observe_each_targets [OF new])
  have dist: "distinct (observation_targets_' this)"
    unfolding tracked by (simp add: distinct_map)
  have again: "Observe this (Some target) = (this, [RegisterIntersectionObserverTarget target])"
    if "Some target \<in> set targets"
  proof -
    from that have "target \<in> set (rev (remdups (rev [t. Some t \<leftarrow> targets])))"
      by (auto split: option.splits)
    then have "track (observation_targets_' this) target = observation_targets_' this"
      unfolding tracked by (simp only: track_no_null if_True)
    then show ?thesis
      by (simp add: Observe_def TrackObservationTarget_def)
  qed
  from tracked dist again show ?thesis
    unfolding new_def this_def Let_def by blast
qed

theorem Observe_tracks_each_target_once_witness:
  "Some 4 \<in> set [Some 4, Some 9, Some (4::nat)] \<and>
   observation_targets_' (fst (Observe_each valid_observer [Some 4, Some 9, Some 4])) =
     [Some 4, Some 9] \<and>
   Observe (fst (Observe_each valid_observer [Some 4, Some 9, Some 4])) (Some 4) =
     (fst (Observe_each valid_observer [Some 4, Some 9, Some 4]),
      [RegisterIntersectionObserverTarget 4])"
  using Observe_tracks_each_target_once
    [where target = "4::nat" and targets = "[Some 4, Some 9, Some 4]"
       and settings = example_settings and callback = "0::nat"
       and options = "example_options ''0px'' (ThresholdSequence [0.75, 0.25])"
       and ?'r = nat]
  by (simp add: valid_observer_def example_observer_def Let_def)

text \<open>
  C9. \<^verbatim>\<open>Disconnect\<close> calls \<^verbatim>\<open>UnregisterIntersectionObserverTarget\<close> on every
  tracked target that is not NULL, in tracking order, and leaves the tracked targets and
  the entry queue empty, so that a \<^verbatim>\<open>TakeRecords\<close> after it returns the empty
  sequence.
\<close>

theorem Disconnect_unregisters_and_clears:
  "snd (Disconnect this) =
     [UnregisterIntersectionObserverTarget t. Some t \<leftarrow> observation_targets_' this] \<and>
   observation_targets_' (fst (Disconnect this)) = [] \<and>
   queued_entries_' (fst (Disconnect this)) = [] \<and>
   fst (TakeRecords (fst (Disconnect this))) = []"
  by (simp add: Disconnect_def TakeRecords_def unregister_targets_eq)

end
